theory Spec2Isabelle
  imports Main
begin

section \<open>JavaScript values the handlers work on\<close>

text \<open>
  Strings are lists of code units; the model takes the code units U+0000 to U+00FF
  (one HOL \<open>char\<close> each). Within that range \<open>String.prototype.trim\<close> removes the
  code units 9 to 13, 32 and 160 from both ends, and \<open>toLowerCase\<close> maps A to Z and the
  Latin-1 capitals (192 to 222 without the multiplication sign 215) 32 places up.
\<close>

definition isWhiteSpace :: "char \<Rightarrow> bool" where
  "isWhiteSpace c = (let n = (of_char c :: nat) in (9 \<le> n \<and> n \<le> 13) \<or> n = 32 \<or> n = 160)"

definition trim :: "string \<Rightarrow> string" where
  "trim s = rev (dropWhile isWhiteSpace (rev (dropWhile isWhiteSpace s)))"

definition toLowerChar :: "char \<Rightarrow> char" where
  "toLowerChar c =
     (let n = (of_char c :: nat)
      in if (65 \<le> n \<and> n \<le> 90) \<or> (192 \<le> n \<and> n \<le> 222 \<and> n \<noteq> 215)
         then char_of (n + 32) else c)"

definition toLowerCase :: "string \<Rightarrow> string" where
  "toLowerCase s = map toLowerChar s"

text \<open>
  A request field is a string or \<open>undefined\<close> (\<open>None\<close>). \<open>falsy\<close> is the test \<open>!x\<close>,
  \<open>js_or\<close> the operator \<open>a || b\<close> on two such values.
\<close>

definition falsy :: "string option \<Rightarrow> bool" where
  "falsy x = (case x of None \<Rightarrow> True | Some s \<Rightarrow> s = [])"

definition js_or :: "string option \<Rightarrow> string option \<Rightarrow> string option" where
  "js_or a b = (if falsy a then b else a)"

text \<open>The callback of \<open>some\<close> in registerUser: \<open>(field) => field?.trim() === ""\<close>.
  On \<open>undefined\<close> the optional chain yields \<open>undefined\<close>, which is not \<open>""\<close>.\<close>

definition field_is_empty :: "string option \<Rightarrow> bool" where
  "field_is_empty field = (case field of None \<Rightarrow> False | Some s \<Rightarrow> trim s = [])"

text \<open>What a handler throws: an \<open>ApiError\<close> with its status code and message, a
  \<open>TypeError\<close> of the language, or an error raised by a collaborator.\<close>

datatype error = ApiError nat string | TypeError string | ExternalError string

fun error_message :: "error \<Rightarrow> string" where
  "error_message (ApiError c m) = m"
| "error_message (TypeError m) = m"
| "error_message (ExternalError m) = m"

section \<open>The credential store\<close>

text \<open>A field of a stored document is missing, \<open>null\<close>, or holds a value.\<close>

datatype 'a field = Absent | Null | Value 'a

record user =
  uid :: nat
  username :: string
  email :: string
  fullname :: string
  avatar :: "string option"
  coverImage :: string
  password :: string
  refreshToken :: "string field"

record subscription =
  subscriber :: nat
  channel :: nat

text \<open>Every call to the store or to the media uploader is recorded in \<open>oplog\<close>.\<close>

datatype effect =
  DbFindOne | DbFindById | DbCreate | DbSave | DbFindByIdAndUpdate | DbAggregate | Upload

record world =
  users :: "user list"
  subscriptions :: "subscription list"
  oplog :: "effect list"

definition logged :: "effect \<Rightarrow> world \<Rightarrow> world" where
  "logged e w = w\<lparr>oplog := oplog w @ [e]\<rparr>"

definition lookup_id :: "nat option \<Rightarrow> user list \<Rightarrow> user option" where
  "lookup_id i us = (case i of None \<Rightarrow> None | Some k \<Rightarrow> find (\<lambda>u. uid u = k) us)"

fun replace_first :: "nat \<Rightarrow> (user \<Rightarrow> user) \<Rightarrow> user list \<Rightarrow> user list" where
  "replace_first k f [] = []"
| "replace_first k f (u # us) = (if uid u = k then f u # us else u # replace_first k f us)"

text \<open>\<open>User.findById(id)\<close>; an \<open>undefined\<close> id finds nothing.\<close>

definition User_findById :: "nat option \<Rightarrow> world \<Rightarrow> user option \<times> world" where
  "User_findById i w = (lookup_id i (users w), logged DbFindById w)"

text \<open>\<open>User.findOne({$or: [{email}, {username}]})\<close>: the first document one of whose two
  fields equals the given value; an \<open>undefined\<close> value equals no stored string.\<close>

definition User_findOne :: "string option \<Rightarrow> string option \<Rightarrow> world \<Rightarrow> user option \<times> world" where
  "User_findOne em un w =
     (find (\<lambda>u. Some (email u) = em \<or> Some (username u) = un) (users w), logged DbFindOne w)"

text \<open>\<open>user.save({validateBeforeSave: false})\<close> writes the document back under its id.\<close>

definition User_save :: "user \<Rightarrow> world \<Rightarrow> world" where
  "User_save u w = logged DbSave (w\<lparr>users := replace_first (uid u) (\<lambda>_. u) (users w)\<rparr>)"

text \<open>\<open>User.findByIdAndUpdate(id, update, {new: true})\<close> returns the updated document.\<close>

definition User_findByIdAndUpdate ::
  "nat option \<Rightarrow> (user \<Rightarrow> user) \<Rightarrow> world \<Rightarrow> user option \<times> world" where
  "User_findByIdAndUpdate i f w =
     (case i of
        None \<Rightarrow> (None, logged DbFindByIdAndUpdate w)
      | Some k \<Rightarrow> (map_option f (lookup_id (Some k) (users w)),
                   logged DbFindByIdAndUpdate (w\<lparr>users := replace_first k f (users w)\<rparr>)))"

section \<open>Collaborators outside the controller\<close>

text \<open>
  The user model's methods, the token library and the media uploader are parameters of
  the handlers. \<open>now\<close> is the time at which a handler runs. \<open>jwtVerify\<close> is the check of
  signature and expiry made by \<open>jwt.verify\<close> (\<open>Some e\<close>: it throws \<open>e\<close>) and \<open>jwtDecode\<close>
  the \<open>_id\<close> of the payload it returns. \<open>uploadOnCloudinary\<close> returns \<open>null\<close> (\<open>None\<close>) or a
  response, given by its \<open>url\<close>.
\<close>

record env =
  hashPassword :: "string option \<Rightarrow> error + string"
  isPasswordCorrect :: "user \<Rightarrow> string option \<Rightarrow> error + bool"
  generateAccessToken :: "nat \<Rightarrow> user \<Rightarrow> string"
  generateRefreshToken :: "nat \<Rightarrow> user \<Rightarrow> string"
  jwtVerify :: "nat \<Rightarrow> string \<Rightarrow> error option"
  jwtDecode :: "string \<Rightarrow> nat option"
  uploadOnCloudinary :: "string option \<Rightarrow> string option option"

definition upload :: "env \<Rightarrow> string option \<Rightarrow> world \<Rightarrow> string option option \<times> world" where
  "upload e p w = (uploadOnCloudinary e p, logged Upload w)"

section \<open>Requests and responses\<close>

record body =
  b_fullname :: "string option"
  b_email :: "string option"
  b_username :: "string option"
  b_password :: "string option"
  b_oldPassword :: "string option"
  b_newPassword :: "string option"
  b_refreshToken :: "string option"

text \<open>An uploaded file is given by its \<open>path\<close>.\<close>

record files =
  f_avatar :: "string list option"
  f_coverImage :: "string list option"

text \<open>A user document as a response carries it: \<open>select\<close> leaves fields out.\<close>

record user_view =
  v_id :: nat
  v_username :: string
  v_email :: string
  v_fullname :: string
  v_avatar :: "string option"
  v_coverImage :: string
  v_password :: "string option"
  v_refreshToken :: "string field"

definition select :: "string list \<Rightarrow> user \<Rightarrow> user_view" where
  "select excluded u =
     \<lparr>v_id = uid u, v_username = username u, v_email = email u, v_fullname = fullname u,
      v_avatar = avatar u, v_coverImage = coverImage u,
      v_password = (if List.member excluded ''password'' then None else Some (password u)),
      v_refreshToken = (if List.member excluded ''refreshToken'' then Absent else refreshToken u)\<rparr>"

record request =
  req_body :: body
  req_cookies_refreshToken :: "string option"
  req_files :: "files option"
  req_file :: "string option"
  req_params_username :: "string option"
  req_user :: "user_view option"

record channel_view =
  c_id :: nat
  c_fullname :: string
  c_username :: string
  c_subscribersCount :: "nat option"
  c_channelsSubscribedToCount :: nat
  c_isSubscribed :: bool
  c_avatar :: "string option"
  c_coverImage :: string
  c_email :: string

datatype payload =
  UserData "user_view option"
| LoginData "user_view option" string string
| TokenData string string
| ChannelData channel_view
| NoData

record api_response =
  statusCode :: nat
  data :: payload
  message :: string
  success :: bool

text \<open>Modelled from the spec: \<open>ApiResponse\<close> (utils/ApiResponse.js), the success envelope
  \<open>{statusCode, data, message, success}\<close> built from its three arguments.\<close>

definition ApiResponse :: "nat \<Rightarrow> payload \<Rightarrow> string \<Rightarrow> api_response" where
  "ApiResponse sc d m = \<lparr>statusCode = sc, data = d, message = m, success = True\<rparr>"

record cookie_options =
  httpOnly :: bool
  secure :: bool

record response =
  status :: nat
  cookies :: "(string \<times> string \<times> cookie_options) list"
  clearedCookies :: "(string \<times> cookie_options) list"
  json :: api_response

section \<open>controllers/user.controller.js\<close>

definition generateAccessAndRefreshToken ::
  "env \<Rightarrow> nat \<Rightarrow> nat \<Rightarrow> world \<Rightarrow> (error + string \<times> string) \<times> world" where
  "generateAccessAndRefreshToken e now userId w =
     (case User_findById (Some userId) w of
        (None, w1) \<Rightarrow>
          (Inl (ApiError 500 ''Something went wrong, while creating access and refresh token''), w1)
      | (Some u, w1) \<Rightarrow>
          (let accessTok = generateAccessToken e now u;
               refreshTok = generateRefreshToken e now u
           in (Inr (accessTok, refreshTok), User_save (u\<lparr>refreshToken := Value refreshTok\<rparr>) w1)))"

definition logoutUser :: "request \<Rightarrow> world \<Rightarrow> (error + response) \<times> world" where
  "logoutUser req w =
     (case req_user req of
        None \<Rightarrow> (Inl (TypeError ''Cannot read properties of undefined (reading _id)''), w)
      | Some ru \<Rightarrow>
          (case User_findByIdAndUpdate (Some (v_id ru)) (\<lambda>u. u\<lparr>refreshToken := Absent\<rparr>) w of
             (_, w1) \<Rightarrow>
               (Inr \<lparr>status = 200, cookies = [],
                     clearedCookies =
                       [(''accessToken'', \<lparr>httpOnly = True, secure = False\<rparr>),
                        (''refreshToken'', \<lparr>httpOnly = True, secure = False\<rparr>)],
                     json = ApiResponse 200 NoData ''User Logged Out successfully''\<rparr>, w1)))"

text \<open>The token a refresh request presents: \<open>req.cookies.refreshToken || req.body.refreshToken\<close>.\<close>

definition incomingRefreshToken_of :: "request \<Rightarrow> string option" where
  "incomingRefreshToken_of req = js_or (req_cookies_refreshToken req) (b_refreshToken (req_body req))"

text \<open>The body of the \<open>try\<close> block of refreshAccessToken.\<close>

definition refresh_try ::
  "env \<Rightarrow> nat \<Rightarrow> string \<Rightarrow> world \<Rightarrow> (error + response) \<times> world" where
  "refresh_try e now incomingRefreshToken w =
     (case jwtVerify e now incomingRefreshToken of
        Some err \<Rightarrow> (Inl err, w)
      | None \<Rightarrow>
          (case User_findById (jwtDecode e incomingRefreshToken) w of
             (None, w1) \<Rightarrow> (Inl (ApiError 3401 ''invalid refersh token''), w1)
           | (Some u, w1) \<Rightarrow>
               if Value incomingRefreshToken \<noteq> refreshToken u
               then (Inl (ApiError 401 ''Refresh Token is expired or used''), w1)
               else (case generateAccessAndRefreshToken e now (uid u) w1 of
                       (Inl err, w2) \<Rightarrow> (Inl err, w2)
                     | (Inr (accessTok, newRefreshToken), w2) \<Rightarrow>
                         (Inr \<lparr>status = 200,
                               cookies =
                                 [(''accessToken'', accessTok, \<lparr>httpOnly = True, secure = True\<rparr>),
                                  (''refreshToken'', newRefreshToken,
                                   \<lparr>httpOnly = True, secure = True\<rparr>)],
                               clearedCookies = [],
                               json = ApiResponse 200 (TokenData accessTok newRefreshToken)
                                        ''AccessToken refreshed''\<rparr>, w2))))"

definition refreshAccessToken ::
  "env \<Rightarrow> nat \<Rightarrow> request \<Rightarrow> world \<Rightarrow> (error + response) \<times> world" where
  "refreshAccessToken e now req w =
     (case incomingRefreshToken_of req of
        None \<Rightarrow> (Inl (ApiError 401 ''Unauthorized request''), w)
      | Some incomingRefreshToken \<Rightarrow>
          if incomingRefreshToken = [] then (Inl (ApiError 401 ''Unauthorized request''), w)
          else (case refresh_try e now incomingRefreshToken w of
                  (Inl err, w1) \<Rightarrow>
                    (Inl (ApiError 401 (if error_message err = [] then ''Invalaid refresh token''
                                        else error_message err)), w1)
                | (Inr res, w1) \<Rightarrow> (Inr res, w1)))"

definition changeCurrentPassword :: "env \<Rightarrow> request \<Rightarrow> world \<Rightarrow> (error + response) \<times> world" where
  "changeCurrentPassword e req w =
     (case User_findById (map_option v_id (req_user req)) w of
        (None, w1) \<Rightarrow>
          (Inl (TypeError ''Cannot read properties of null (reading isPasswordCorrect)''), w1)
      | (Some u, w1) \<Rightarrow>
          (case isPasswordCorrect e u (b_oldPassword (req_body req)) of
             Inl err \<Rightarrow> (Inl err, w1)
           | Inr ok \<Rightarrow>
               if \<not> ok then (Inl (ApiError 400 ''Invalid Old Password''), w1)
               else (case hashPassword e (b_newPassword (req_body req)) of
                       Inl err \<Rightarrow> (Inl err, logged DbSave w1)
                     | Inr h \<Rightarrow>
                         (Inr \<lparr>status = 200, cookies = [], clearedCookies = [],
                               json = ApiResponse 200 NoData ''Password Changed Successfully''\<rparr>,
                          User_save (u\<lparr>password := h\<rparr>) w1))))"

definition getCurrentUser :: "request \<Rightarrow> world \<Rightarrow> (error + response) \<times> world" where
  "getCurrentUser req w =
     (Inr \<lparr>status = 200, cookies = [], clearedCookies = [],
           json = ApiResponse 200 (UserData (req_user req)) ''current user fetched successfully''\<rparr>,
      w)"

definition updateUserAccount :: "request \<Rightarrow> world \<Rightarrow> (error + response) \<times> world" where
  "updateUserAccount req w =
     (case (b_fullname (req_body req), b_email (req_body req)) of
        (Some fn, Some em) \<Rightarrow>
          if fn = [] \<or> em = [] then (Inl (ApiError 400 ''All Fields are required''), w)
          else (case User_findByIdAndUpdate (map_option v_id (req_user req))
                       (\<lambda>u. u\<lparr>fullname := fn, email := em\<rparr>) w of
                  (updated, w1) \<Rightarrow>
                    (Inr \<lparr>status = 200, cookies = [], clearedCookies = [],
                          json = ApiResponse 200 (UserData (map_option (select [''password'']) updated))
                                   ''Account details updated successfully''\<rparr>, w1))
      | _ \<Rightarrow> (Inl (ApiError 400 ''All Fields are required''), w))"

definition updateUserAvatar :: "env \<Rightarrow> request \<Rightarrow> world \<Rightarrow> (error + response) \<times> world" where
  "updateUserAvatar e req w =
     (let avatarLocalPath = req_file req in
      if falsy avatarLocalPath then (Inl (ApiError 400 ''Avatar is required''), w)
      else (case upload e avatarLocalPath w of
              (None, w1) \<Rightarrow> (Inl (TypeError ''Cannot read properties of null (reading url)''), w1)
            | (Some url, w1) \<Rightarrow>
                if falsy url then (Inl (ApiError 500 ''Error while uploading avatar''), w1)
                else (case User_findByIdAndUpdate (map_option v_id (req_user req))
                             (\<lambda>u. u\<lparr>avatar := url\<rparr>) w1 of
                        (updated, w2) \<Rightarrow>
                          (Inr \<lparr>status = 200, cookies = [], clearedCookies = [],
                                json = ApiResponse 200
                                         (UserData (map_option (select [''password'']) updated))
                                         ''Avatar is updated is successfully''\<rparr>, w2))))"

definition updateUserCoverImage :: "env \<Rightarrow> request \<Rightarrow> world \<Rightarrow> (error + response) \<times> world" where
  "updateUserCoverImage e req w =
     (let coverImageLocalPath = req_file req in
      if falsy coverImageLocalPath then (Inl (ApiError 400 ''cover image is required''), w)
      else (case upload e coverImageLocalPath w of
              (None, w1) \<Rightarrow> (Inl (TypeError ''Cannot read properties of null (reading url)''), w1)
            | (Some None, w1) \<Rightarrow> (Inl (ApiError 500 ''Error while uploading avatar''), w1)
            | (Some (Some url), w1) \<Rightarrow>
                if url = [] then (Inl (ApiError 500 ''Error while uploading avatar''), w1)
                else (case User_findByIdAndUpdate (map_option v_id (req_user req))
                             (\<lambda>u. u\<lparr>coverImage := url\<rparr>) w1 of
                        (updated, w2) \<Rightarrow>
                          (Inr \<lparr>status = 200, cookies = [], clearedCookies = [],
                                json = ApiResponse 200
                                         (UserData (map_option (select [''password'']) updated))
                                         ''coverImage is updated successfully''\<rparr>, w2))))"

text \<open>
  Modelled from the spec: \<open>User.create\<close> (models/user.model.js). The data model makes
  fullname, email, username and the password hash mandatory; the new user gets an identity
  that no stored user has, the password is hashed by the pre-persist hook, and no refresh
  token is stored yet.
\<close>

definition fresh_id :: "user list \<Rightarrow> nat" where
  "fresh_id us = Suc (fold max (map uid us) 0)"

definition User_create ::
  "env \<Rightarrow> string option \<Rightarrow> string option \<Rightarrow> string \<Rightarrow> string option \<Rightarrow> string option \<Rightarrow> string
     \<Rightarrow> world \<Rightarrow> (error + user) \<times> world" where
  "User_create e fn av ci em pw un w =
     (case (fn, em) of
        (Some f, Some m) \<Rightarrow>
          (case hashPassword e pw of
             Inl err \<Rightarrow> (Inl err, logged DbCreate w)
           | Inr h \<Rightarrow>
               (let u = \<lparr>uid = fresh_id (users w), username = un, email = m, fullname = f,
                         avatar = av, coverImage = ci, password = h, refreshToken = Absent\<rparr>
                in (Inr u, logged DbCreate (w\<lparr>users := users w @ [u]\<rparr>))))
      | _ \<Rightarrow> (Inl (ExternalError ''User validation failed''), logged DbCreate w))"

text \<open>\<open>req.files?.avatar[0]?.path\<close>: only \<open>req.files\<close> is guarded, so indexing a missing
  \<open>avatar\<close> throws.\<close>

definition avatarLocalPath_of :: "request \<Rightarrow> error + string option" where
  "avatarLocalPath_of req =
     (case req_files req of
        None \<Rightarrow> Inr None
      | Some fs \<Rightarrow>
          (case f_avatar fs of
             None \<Rightarrow> Inl (TypeError ''Cannot read properties of undefined (reading 0)'')
           | Some [] \<Rightarrow> Inr None
           | Some (p # _) \<Rightarrow> Inr (Some p)))"

text \<open>The guarded form, used for the cover image and, in the second copy of the
  controller, for the avatar: \<open>req.files && Array.isArray(xs) && xs.length > 0\<close>.\<close>

definition first_path :: "string list option \<Rightarrow> string option" where
  "first_path xs = (case xs of None \<Rightarrow> None | Some [] \<Rightarrow> None | Some (p # _) \<Rightarrow> Some p)"

definition coverImageLocalPath_of :: "request \<Rightarrow> string option" where
  "coverImageLocalPath_of req =
     (case req_files req of None \<Rightarrow> None | Some fs \<Rightarrow> first_path (f_coverImage fs))"

definition avatarLocalPath_part000 :: "request \<Rightarrow> string option" where
  "avatarLocalPath_part000 req =
     (case req_files req of None \<Rightarrow> None | Some fs \<Rightarrow> first_path (f_avatar fs))"

text \<open>registerUser is the same text in both copies of the controller but for the way the
  avatar path is read, which is the first argument here.\<close>

definition register_steps ::
  "(request \<Rightarrow> error + string option) \<Rightarrow> env \<Rightarrow> request \<Rightarrow> world \<Rightarrow> (error + response) \<times> world" where
  "register_steps avatarPath e req w =
     (let fn = b_fullname (req_body req); em = b_email (req_body req);
          un = b_username (req_body req); pw = b_password (req_body req)
      in if list_ex field_is_empty [fn, em, un, pw]
         then (Inl (ApiError 400 ''All field are required''), w)
         else (case User_findOne em un w of
                 (Some existedUser, w1) \<Rightarrow> (Inl (ApiError 409 ''user is already exist''), w1)
               | (None, w1) \<Rightarrow>
                   (case avatarPath req of
                      Inl err \<Rightarrow> (Inl err, w1)
                    | Inr avatarLocalPath \<Rightarrow>
                        if falsy avatarLocalPath
                        then (Inl (ApiError 400 ''Avatar files is reqiured''), w1)
                        else (case upload e avatarLocalPath w1 of
                                (uploadedAvatar, w2) \<Rightarrow>
                        (case upload e (coverImageLocalPath_of req) w2 of
                                (uploadedCover, w3) \<Rightarrow>
                        (case uploadedAvatar of
                           None \<Rightarrow> (Inl (ApiError 400 ''Avatar files is reqiured''), w3)
                         | Some avatarUrl \<Rightarrow>
                             (case un of
                                None \<Rightarrow>
                                  (Inl (TypeError
                                     ''Cannot read properties of undefined (reading toLowerCase)''), w3)
                              | Some name \<Rightarrow>
                                  (case User_create e fn avatarUrl
                                          (case uploadedCover of
                                             Some (Some url) \<Rightarrow> url | _ \<Rightarrow> [])
                                          em pw (toLowerCase name) w3 of
                                     (Inl err, w4) \<Rightarrow> (Inl err, w4)
                                   | (Inr created, w4) \<Rightarrow>
                                       (case User_findById (Some (uid created)) w4 of
                                          (None, w5) \<Rightarrow>
                                            (Inl (ApiError 500
                                               ''Something went wrong while registering the user''), w5)
                                        | (Some createdUser, w5) \<Rightarrow>
                                            (Inr \<lparr>status = 201, cookies = [], clearedCookies = [],
                                                  json = ApiResponse 200
                                                    (UserData (Some (select
                                                       [''password'', ''refreshToken''] createdUser)))
                                                    ''User register successfully''\<rparr>, w5))))))))))"

definition registerUser :: "env \<Rightarrow> request \<Rightarrow> world \<Rightarrow> (error + response) \<times> world" where
  "registerUser e req w = register_steps avatarLocalPath_of e req w"

definition loginUser :: "env \<Rightarrow> nat \<Rightarrow> request \<Rightarrow> world \<Rightarrow> (error + response) \<times> world" where
  "loginUser e now req w =
     (let un = b_username (req_body req); em = b_email (req_body req)
      in if falsy un \<and> falsy em then (Inl (ApiError 400 ''username or email is required''), w)
         else (case User_findOne em un w of
                 (None, w1) \<Rightarrow> (Inl (ApiError 404 ''User does not exist''), w1)
               | (Some u, w1) \<Rightarrow>
                   (case isPasswordCorrect e u (b_password (req_body req)) of
                      Inl err \<Rightarrow> (Inl err, w1)
                    | Inr isPasswordValid \<Rightarrow>
                        if \<not> isPasswordValid
                        then (Inl (ApiError 401 ''Invalid user credentials.''), w1)
                        else (case generateAccessAndRefreshToken e now (uid u) w1 of
                                (Inl err, w2) \<Rightarrow> (Inl err, w2)
                              | (Inr (accessTok, refreshTok), w2) \<Rightarrow>
                                  (case User_findById (Some (uid u)) w2 of
                                     (loggedInUser, w3) \<Rightarrow>
                                       (Inr \<lparr>status = 200,
                                             cookies =
                                               [(''accessToken'', accessTok,
                                                 \<lparr>httpOnly = True, secure = False\<rparr>),
                                                (''refreshToken'', refreshTok,
                                                 \<lparr>httpOnly = True, secure = False\<rparr>)],
                                             clearedCookies = [],
                                             json = ApiResponse 200
                                               (LoginData
                                                  (map_option (select [''password'', ''refreshToken''])
                                                     loggedInUser)
                                                  accessTok refreshTok)
                                               ''User logged In Successfully''\<rparr>, w3))))))"

text \<open>
  The aggregation pipeline of getUserChannalProfile on one matched user: the two lookups
  into the subscriptions, the added fields and the projection. The pipeline adds
  \<open>subscriberCount\<close> and projects \<open>subscribersCount\<close>, a field no stage defines, so the
  projected document has none.
\<close>

definition channel_profile :: "nat option \<Rightarrow> subscription list \<Rightarrow> user \<Rightarrow> channel_view" where
  "channel_profile viewer subs u =
     (let subscribers = filter (\<lambda>s. channel s = uid u) subs;
          subscribedTo = filter (\<lambda>s. subscriber s = uid u) subs
      in \<lparr>c_id = uid u, c_fullname = fullname u, c_username = username u,
          c_subscribersCount = None,
          c_channelsSubscribedToCount = length subscribedTo,
          c_isSubscribed =
            (case viewer of None \<Rightarrow> False
             | Some v \<Rightarrow> List.member (map subscriber subscribers) v),
          c_avatar = avatar u, c_coverImage = coverImage u, c_email = email u\<rparr>)"

definition User_aggregate ::
  "string \<Rightarrow> nat option \<Rightarrow> world \<Rightarrow> channel_view list \<times> world" where
  "User_aggregate name viewer w =
     (map (channel_profile viewer (subscriptions w)) (filter (\<lambda>u. username u = name) (users w)),
      logged DbAggregate w)"

definition getUserChannalProfile :: "request \<Rightarrow> world \<Rightarrow> (error + response) \<times> world" where
  "getUserChannalProfile req w =
     (case req_params_username req of
        None \<Rightarrow> (Inl (ApiError 400 ''Username is missing''), w)
      | Some name \<Rightarrow>
          if trim name = [] then (Inl (ApiError 400 ''Username is missing''), w)
          else (case User_aggregate (toLowerCase name) (map_option v_id (req_user req)) w of
                  ([], w1) \<Rightarrow> (Inl (ApiError 400 ''Channel doesnot exists''), w1)
                | (c # _, w1) \<Rightarrow>
                    (Inr \<lparr>status = 200, cookies = [], clearedCookies = [],
                          json = ApiResponse 200 (ChannelData c)
                                   ''user channel fetched successfully''\<rparr>, w1)))"

section \<open>The second copy of the controller (unnamed/part_000)\<close>

definition registerUser_part000 :: "env \<Rightarrow> request \<Rightarrow> world \<Rightarrow> (error + response) \<times> world" where
  "registerUser_part000 e req w =
     register_steps (\<lambda>r. Inr (avatarLocalPath_part000 r)) e req w"

definition loginUser_part000 ::
  "env \<Rightarrow> nat \<Rightarrow> request \<Rightarrow> world \<Rightarrow> (error + response) \<times> world" where
  "loginUser_part000 e now req w =
     (let un = b_username (req_body req); em = b_email (req_body req)
      in if falsy un \<or> falsy em then (Inl (ApiError 400 ''username or email is required''), w)
         else (case User_findOne em un w of
                 (None, w1) \<Rightarrow> (Inl (ApiError 404 ''User does not exist''), w1)
               | (Some u, w1) \<Rightarrow>
                   (case isPasswordCorrect e u (b_password (req_body req)) of
                      Inl err \<Rightarrow> (Inl err, w1)
                    | Inr isPasswordValid \<Rightarrow>
                        if \<not> isPasswordValid
                        then (Inl (ApiError 401 ''Invalid user credientials''), w1)
                        else (case generateAccessAndRefreshToken e now (uid u) w1 of
                                (Inl err, w2) \<Rightarrow> (Inl err, w2)
                              | (Inr (accessTok, refreshTok), w2) \<Rightarrow>
                                  (case User_findById (Some (uid u)) w2 of
                                     (loggedInUser, w3) \<Rightarrow>
                                       (Inr \<lparr>status = 200,
                                             cookies =
                                               [(''accessToken'', accessTok,
                                                 \<lparr>httpOnly = True, secure = True\<rparr>),
                                                (''refressToken'', refreshTok,
                                                 \<lparr>httpOnly = True, secure = True\<rparr>)],
                                             clearedCookies = [],
                                             json = ApiResponse 200
                                               (LoginData
                                                  (map_option (select [''password'', ''refreshToken''])
                                                     loggedInUser)
                                                  accessTok refreshTok)
                                               ''User logged In Successfully''\<rparr>, w3))))))"

section \<open>utils/asyncHandler.js\<close>

text \<open>
  A value is \<open>undefined\<close> or a function. The body of an arrow function written with braces
  is a list of statements; a call returns the value of the first \<open>return\<close> statement it
  reaches and \<open>undefined\<close> when it reaches the end of the body. The inner arrow function
  \<open>(req, res, next) => {...}\<close> runs the request handler and hands a rejection to \<open>next\<close>; it
  is given here by the handler it wraps.
\<close>

datatype 'h js_value = Undefined | Function 'h

datatype 'h statement = ExpressionStatement "'h js_value" | ReturnStatement "'h js_value"

fun call_body :: "'h statement list \<Rightarrow> 'h js_value" where
  "call_body [] = Undefined"
| "call_body (ReturnStatement v # rest) = v"
| "call_body (ExpressionStatement v # rest) = call_body rest"

definition asyncHandler :: "'h \<Rightarrow> 'h js_value" where
  "asyncHandler reqHandler = call_body [ExpressionStatement (Function reqHandler)]"

definition callable :: "'h js_value \<Rightarrow> bool" where
  "callable v = (case v of Undefined \<Rightarrow> False | Function h \<Rightarrow> True)"

text \<open>Calling a value: \<open>undefined\<close> is not a function.\<close>

definition invoke :: "'h js_value \<Rightarrow> error + 'h" where
  "invoke v = (case v of Undefined \<Rightarrow> Inl (TypeError ''handler is not a function'')
               | Function h \<Rightarrow> Inr h)"

section \<open>Reading a result\<close>

text \<open>The status a result is sent with: the code an \<open>ApiError\<close> carries, or the status set
  on the response. Other errors carry none.\<close>

definition http_status :: "error + response \<Rightarrow> nat option" where
  "http_status r =
     (case r of Inl (ApiError c m) \<Rightarrow> Some c | Inl _ \<Rightarrow> None | Inr res \<Rightarrow> Some (status res))"

text \<open>A result fails with a status code when it is an \<open>ApiError\<close> carrying that code.\<close>

definition fails_with :: "nat \<Rightarrow> error + response \<Rightarrow> bool" where
  "fails_with code r = (case r of Inl (ApiError c m) \<Rightarrow> c = code | _ \<Rightarrow> False)"


section \<open>Sample collaborators, stores and requests\<close>

text \<open>A token issuer whose tokens carry the user id and the time of issue, a hasher that
  marks the password, and an uploader that answers with a url.\<close>

definition env0 :: env where
  "env0 =
     \<lparr>hashPassword =
        (\<lambda>p. case p of None \<Rightarrow> Inl (ExternalError ''data and salt arguments required'')
              | Some s \<Rightarrow> Inr (CHR ''#'' # s)),
      isPasswordCorrect =
        (\<lambda>u p. case p of None \<Rightarrow> Inl (ExternalError ''data and hash arguments required'')
                | Some s \<Rightarrow> Inr (password u = CHR ''#'' # s)),
      generateAccessToken = (\<lambda>now u. ''at'' @ replicate (uid u) CHR ''u'' @ replicate now CHR ''.''),
      generateRefreshToken = (\<lambda>now u. ''rt'' @ replicate (uid u) CHR ''u'' @ replicate now CHR ''.''),
      jwtVerify =
        (\<lambda>now t. if take 2 t = ''rt'' then None else Some (ExternalError ''jwt malformed'')),
      jwtDecode = (\<lambda>t. Some (length (takeWhile (\<lambda>c. c = CHR ''u'') (drop 2 t)))),
      uploadOnCloudinary =
        (\<lambda>p. case p of None \<Rightarrow> None | Some s \<Rightarrow> Some (Some (''cdn/'' @ s)))\<rparr>"

definition alice :: user where
  "alice = \<lparr>uid = 1, username = ''alice'', email = ''alice@x.com'', fullname = ''Alice'',
            avatar = Some ''cdn/a.png'', coverImage = [], password = ''#p1'',
            refreshToken = Value ''rtu''\<rparr>"

definition w_empty :: world where
  "w_empty = \<lparr>users = [], subscriptions = [], oplog = []\<rparr>"

definition w_alice :: world where
  "w_alice = \<lparr>users = [alice], subscriptions = [], oplog = []\<rparr>"

definition no_body :: body where
  "no_body = \<lparr>b_fullname = None, b_email = None, b_username = None, b_password = None,
              b_oldPassword = None, b_newPassword = None, b_refreshToken = None\<rparr>"

definition req_none :: request where
  "req_none = \<lparr>req_body = no_body, req_cookies_refreshToken = None, req_files = None,
               req_file = None, req_params_username = None, req_user = None\<rparr>"

text \<open>The identity the authentication middleware puts on a request made by alice.\<close>

definition alice_identity :: user_view where
  "alice_identity = select [''password'', ''refreshToken''] alice"

definition req_refresh :: request where
  "req_refresh = req_none\<lparr>req_cookies_refreshToken := Some ''rtu''\<rparr>"

definition req_alice :: request where
  "req_alice = req_none\<lparr>req_user := Some alice_identity\<rparr>"


definition req_register :: request where
  "req_register =
     req_none\<lparr>req_body := no_body\<lparr>b_fullname := Some ''Alice'', b_email := Some ''alice@x.com'',
                                   b_username := Some ''Alice'', b_password := Some ''p1''\<rparr>,
              req_files := Some \<lparr>f_avatar = Some [''tmp/a.png''], f_coverImage = None\<rparr>\<rparr>"

definition req_login :: request where
  "req_login =
     req_none\<lparr>req_body := no_body\<lparr>b_username := Some ''alice'', b_email := Some [],
                                   b_password := Some ''p1''\<rparr>\<rparr>"

text \<open>A registration without the \<open>fullname\<close> field, for a name and an address that are
  taken, and one without the \<open>username\<close> field; a change of the account details and an
  upload made by alice; a look at the channel of a user nobody registered.\<close>

definition req_register_no_fullname :: request where
  "req_register_no_fullname =
     req_none\<lparr>req_body := no_body\<lparr>b_email := Some ''alice@x.com'', b_username := Some ''alice'',
                                   b_password := Some ''p1''\<rparr>,
              req_files := Some \<lparr>f_avatar = Some [''tmp/a.png''], f_coverImage = None\<rparr>\<rparr>"

definition req_register_no_username :: request where
  "req_register_no_username =
     req_none\<lparr>req_body := no_body\<lparr>b_fullname := Some ''Bob'', b_email := Some ''bob@x.com'',
                                   b_password := Some ''p2''\<rparr>,
              req_files := Some \<lparr>f_avatar = Some [''tmp/b.png''], f_coverImage = None\<rparr>\<rparr>"


definition req_bob :: request where
  "req_bob = req_none\<lparr>req_params_username := Some ''Bob''\<rparr>"

section \<open>Facts about the store\<close>

lemma find_replace_first:
  "find (\<lambda>u. uid u = k) us = Some u \<Longrightarrow> uid (f u) = k \<Longrightarrow>
   find (\<lambda>u. uid u = k) (replace_first k f us) = Some (f u)"
  by (induction us) (auto split: if_splits)

lemma find_replace_first_None:
  "find (\<lambda>u. uid u = k) us = None \<Longrightarrow> find (\<lambda>u. uid u = k) (replace_first k f us) = None"
  by (induction us) (auto split: if_splits)

lemma find_uid: "find (\<lambda>u. uid u = k) us = Some u \<Longrightarrow> uid u = k"
  by (induction us) (auto split: if_splits)

lemma lookup_id_uid: "lookup_id i us = Some u \<Longrightarrow> i = Some (uid u)"
  by (cases i) (auto simp: lookup_id_def dest: find_uid)

lemma users_logged [simp]: "users (logged ev w) = users w"
  by (simp add: logged_def)

lemma generate_found:
  assumes "lookup_id (Some k) (users w) = Some u"
  shows "generateAccessAndRefreshToken e now k w =
     (Inr (generateAccessToken e now u, generateRefreshToken e now u),
      User_save (u\<lparr>refreshToken := Value (generateRefreshToken e now u)\<rparr>) (logged DbFindById w))"
  using assms by (simp add: generateAccessAndRefreshToken_def User_findById_def Let_def)

lemma lookup_after_save:
  assumes "lookup_id (Some k) (users w) = Some u" and "uid u' = k"
  shows "lookup_id (Some k) (users (User_save u' w)) = Some u'"
  using assms find_replace_first [of k "users w" u "\<lambda>_. u'"]
  by (simp add: lookup_id_def User_save_def)

lemma lookup_after_update:
  assumes "lookup_id (Some k) (users w) = Some u" and "uid (f u) = k"
  shows "lookup_id (Some k) (users (snd (User_findByIdAndUpdate (Some k) f w))) = Some (f u)"
  using assms find_replace_first [of k "users w" u f]
  by (simp add: lookup_id_def User_findByIdAndUpdate_def)

section \<open>Refreshing the access token\<close>

text \<open>What a successful run of the try block did.\<close>

lemma refresh_try_success:
  assumes "refresh_try e now tok w = (Inr res, w1)"
  obtains u where "jwtVerify e now tok = None"
    and "lookup_id (jwtDecode e tok) (users w) = Some u"
    and "refreshToken u = Value tok"
    and "data (json res) = TokenData (generateAccessToken e now u) (generateRefreshToken e now u)"
    and "w1 = User_save (u\<lparr>refreshToken := Value (generateRefreshToken e now u)\<rparr>)
                (logged DbFindById (logged DbFindById w))"
proof -
  from assms have v: "jwtVerify e now tok = None"
    by (auto simp: refresh_try_def split: option.splits)
  from assms v obtain u where u: "lookup_id (jwtDecode e tok) (users w) = Some u"
    by (cases "lookup_id (jwtDecode e tok) (users w)") (auto simp: refresh_try_def User_findById_def)
  from assms v u have eq: "refreshToken u = Value tok"
    by (auto simp: refresh_try_def User_findById_def split: if_splits)
  from u have "lookup_id (Some (uid u)) (users (logged DbFindById w)) = Some u"
    using lookup_id_uid [OF u] by simp
  note g = generate_found [OF this, of e now]
  from assms v u eq g
  have "data (json res) = TokenData (generateAccessToken e now u) (generateRefreshToken e now u)"
    and "w1 = User_save (u\<lparr>refreshToken := Value (generateRefreshToken e now u)\<rparr>)
                (logged DbFindById (logged DbFindById w))"
    by (auto simp: refresh_try_def User_findById_def ApiResponse_def)
  with v u eq that show thesis by blast
qed

lemma refresh_try_users_fail:
  "refresh_try e now tok w = (Inl err, w1) \<Longrightarrow> users w1 = users w"
  by (auto simp: refresh_try_def User_findById_def generateAccessAndRefreshToken_def Let_def
      split: option.splits if_splits prod.splits sum.splits)

text \<open>
  C1, as the code has it. A refresh is accepted only if the presented token equals the
  refresh token stored for the user the token names. A successful refresh answers with
  the pair of tokens the issuer mints for that user in this call and overwrites the stored
  value with the minted refresh token. When the minted refresh token differs from the
  presented one, a second refresh with the presented token fails with an \<open>ApiError\<close> of
  status 401, whenever it is made, and leaves the users as they are.
\<close>

theorem refresh_rotation:
  assumes first: "refreshAccessToken e now req w = (Inr res, w1)"
    and tok: "incomingRefreshToken_of req = Some tok"
  shows "\<exists>u. lookup_id (jwtDecode e tok) (users w) = Some u \<and> refreshToken u = Value tok \<and>
           data (json res) = TokenData (generateAccessToken e now u) (generateRefreshToken e now u) \<and>
           lookup_id (jwtDecode e tok) (users w1)
             = Some (u\<lparr>refreshToken := Value (generateRefreshToken e now u)\<rparr>) \<and>
           (generateRefreshToken e now u \<noteq> tok \<longrightarrow>
              fails_with 401 (fst (refreshAccessToken e now2 req w1)) \<and>
              users (snd (refreshAccessToken e now2 req w1)) = users w1)"
proof -
  from first tok have ne: "tok \<noteq> []" and t: "refresh_try e now tok w = (Inr res, w1)"
    by (auto simp: refreshAccessToken_def split: option.splits prod.splits sum.splits if_splits)
  from t obtain u where u: "lookup_id (jwtDecode e tok) (users w) = Some u"
    and st: "refreshToken u = Value tok"
    and d: "data (json res) = TokenData (generateAccessToken e now u) (generateRefreshToken e now u)"
    and w1: "w1 = User_save (u\<lparr>refreshToken := Value (generateRefreshToken e now u)\<rparr>)
                (logged DbFindById (logged DbFindById w))"
    by (rule refresh_try_success)
  have k: "jwtDecode e tok = Some (uid u)" by (rule lookup_id_uid [OF u])
  let ?u1 = "u\<lparr>refreshToken := Value (generateRefreshToken e now u)\<rparr>"
  have l1: "lookup_id (jwtDecode e tok) (users w1) = Some ?u1"
    unfolding w1 k using u k by (intro lookup_after_save [where u = u]) simp_all
  have later: "fails_with 401 (fst (refreshAccessToken e now2 req w1)) \<and>
      users (snd (refreshAccessToken e now2 req w1)) = users w1"
    if fresh: "generateRefreshToken e now u \<noteq> tok"
  proof -
    have "\<exists>err w2. refresh_try e now2 tok w1 = (Inl err, w2)"
      using l1 fresh by (auto simp: refresh_try_def User_findById_def split: option.splits)
    then obtain err w2 where s2: "refresh_try e now2 tok w1 = (Inl err, w2)" by blast
    have f: "fails_with 401 (fst (refreshAccessToken e now2 req w1))"
      using tok ne s2 by (simp add: refreshAccessToken_def fails_with_def)
    have un: "users (snd (refreshAccessToken e now2 req w1)) = users w1"
      using tok ne s2 refresh_try_users_fail [OF s2] by (simp add: refreshAccessToken_def)
    from f un show ?thesis ..
  qed
  from u st d l1 later show ?thesis by blast
qed

text \<open>The theorem at work: alice refreshes with her stored token at time 1 and again, with
  the same token, at time 2.\<close>

theorem refresh_rotation_witness:
  "incomingRefreshToken_of req_refresh = Some ''rtu'' \<and>
   http_status (fst (refreshAccessToken env0 1 req_refresh w_alice)) = Some 200 \<and>
   lookup_id (jwtDecode env0 ''rtu'') (users w_alice) = Some alice \<and>
   refreshToken alice = Value ''rtu'' \<and>
   generateRefreshToken env0 1 alice = ''rtu.'' \<and>
   lookup_id (jwtDecode env0 ''rtu'') (users (snd (refreshAccessToken env0 1 req_refresh w_alice)))
     = Some (alice\<lparr>refreshToken := Value ''rtu.''\<rparr>) \<and>
   fails_with 401
     (fst (refreshAccessToken env0 2 req_refresh (snd (refreshAccessToken env0 1 req_refresh w_alice))))"
proof -
  define res where "res = projr (fst (refreshAccessToken env0 1 req_refresh w_alice))"
  define w1 where "w1 = snd (refreshAccessToken env0 1 req_refresh w_alice)"
  have run: "refreshAccessToken env0 1 req_refresh w_alice = (Inr res, w1)"
    unfolding res_def w1_def by code_simp
  have tok: "incomingRefreshToken_of req_refresh = Some ''rtu''" by code_simp
  have first: "http_status (fst (refreshAccessToken env0 1 req_refresh w_alice)) = Some 200"
    by code_simp
  have stored: "lookup_id (jwtDecode env0 ''rtu'') (users w_alice) = Some alice" by code_simp
  have valid: "refreshToken alice = Value ''rtu''" by code_simp
  have minted: "generateRefreshToken env0 1 alice = ''rtu.''" by code_simp
  from refresh_rotation [OF run tok, of 2] obtain u where
    u: "lookup_id (jwtDecode env0 ''rtu'') (users w_alice) = Some u"
    and l1: "lookup_id (jwtDecode env0 ''rtu'') (users w1)
               = Some (u\<lparr>refreshToken := Value (generateRefreshToken env0 1 u)\<rparr>)"
    and later: "generateRefreshToken env0 1 u \<noteq> ''rtu'' \<longrightarrow>
                fails_with 401 (fst (refreshAccessToken env0 2 req_refresh w1))"
    by blast
  from u stored have ua: "u = alice" by simp
  have "''rtu.'' \<noteq> ''rtu''" by simp
  with later minted ua have f: "fails_with 401 (fst (refreshAccessToken env0 2 req_refresh w1))"
    by simp
  from l1 ua minted have l: "lookup_id (jwtDecode env0 ''rtu'') (users w1)
      = Some (alice\<lparr>refreshToken := Value ''rtu.''\<rparr>)" by simp
  from tok first stored valid minted l f show ?thesis unfolding w1_def by blast
qed

text \<open>
  C1, as the claim words it, fails: the handler does not compare the minted token with the
  presented one. The sample issuer makes a token of the user id and the time of issue;
  alice's stored token was issued at time 0, a refresh at time 0 mints the same token
  again, and the second refresh with that token is accepted with status 200.
\<close>

theorem refresh_twice_same_token_accepted:
  "incomingRefreshToken_of req_refresh = Some ''rtu'' \<and>
   refreshToken alice = Value ''rtu'' \<and>
   generateRefreshToken env0 0 alice = ''rtu'' \<and>
   http_status (fst (refreshAccessToken env0 0 req_refresh w_alice)) = Some 200 \<and>
   http_status (fst (refreshAccessToken env0 0 req_refresh
      (snd (refreshAccessToken env0 0 req_refresh w_alice)))) = Some 200 \<and>
   \<not> fails_with 401 (fst (refreshAccessToken env0 0 req_refresh
      (snd (refreshAccessToken env0 0 req_refresh w_alice))))"
  by code_simp

text \<open>
  C2, as the code has it. A token that passes verification and names no stored user makes
  refreshAccessToken fail with status 401: the error thrown inside the \<open>try\<close> block
  (written with the code 3401) is caught, and the \<open>catch\<close> block throws an
  \<open>ApiError\<close> of status 401 that keeps the message.
\<close>

theorem refresh_unknown_user_is_401:
  assumes tok: "incomingRefreshToken_of req = Some tok" and ne: "tok \<noteq> []"
    and v: "jwtVerify e now tok = None"
    and nouser: "lookup_id (jwtDecode e tok) (users w) = None"
  shows "fst (refreshAccessToken e now req w) = Inl (ApiError 401 ''invalid refersh token'') \<and>
         http_status (fst (refreshAccessToken e now req w)) = Some 401 \<and>
         users (snd (refreshAccessToken e now req w)) = users w"
proof -
  have "refresh_try e now tok w = (Inl (ApiError 3401 ''invalid refersh token''), logged DbFindById w)"
    using v nouser by (simp add: refresh_try_def User_findById_def)
  with tok ne show ?thesis
    by (simp add: refreshAccessToken_def http_status_def)
qed

theorem refresh_unknown_user_is_401_witness:
  "incomingRefreshToken_of req_refresh = Some ''rtu'' \<and> jwtVerify env0 1 ''rtu'' = None \<and>
   lookup_id (jwtDecode env0 ''rtu'') (users w_empty) = None \<and>
   fst (refreshAccessToken env0 1 req_refresh w_empty) = Inl (ApiError 401 ''invalid refersh token'') \<and>
   http_status (fst (refreshAccessToken env0 1 req_refresh w_empty)) = Some 401 \<and>
   users (snd (refreshAccessToken env0 1 req_refresh w_empty)) = users w_empty"
proof -
  have h1: "incomingRefreshToken_of req_refresh = Some ''rtu''"
    by (simp add: incomingRefreshToken_of_def req_refresh_def req_none_def js_or_def falsy_def)
  have h2: "''rtu'' \<noteq> []" by simp
  have h3: "jwtVerify env0 1 ''rtu'' = None" by (simp add: env0_def)
  have h4: "lookup_id (jwtDecode env0 ''rtu'') (users w_empty) = None"
    by (simp add: env0_def w_empty_def lookup_id_def)
  from refresh_unknown_user_is_401 [OF h1 h2 h3 h4] h1 h3 h4 show ?thesis by blast
qed

text \<open>
  C2, as the claim words it, fails: on the empty store the verified token \<open>rtu\<close> names no
  user, and the refresh does not fail with status 404.
\<close>

theorem refresh_unknown_user_not_404:
  "jwtVerify env0 1 ''rtu'' = None \<and>
   lookup_id (jwtDecode env0 ''rtu'') (users w_empty) = None \<and>
   fst (refreshAccessToken env0 1 req_refresh w_empty) = Inl (ApiError 401 ''invalid refersh token'') \<and>
   \<not> fails_with 404 (fst (refreshAccessToken env0 1 req_refresh w_empty))"
  by (simp add: refreshAccessToken_def refresh_try_def incomingRefreshToken_of_def req_refresh_def
      req_none_def no_body_def js_or_def falsy_def env0_def w_empty_def lookup_id_def
      User_findById_def fails_with_def)

section \<open>Logging out\<close>

text \<open>
  C4. A logout of a stored user succeeds with status 200 and leaves the user's document
  without a \<open>refreshToken\<close> field (the field is absent, not \<open>null\<close>); a refresh that then
  presents a token of this user fails with an \<open>ApiError\<close> of status 401.
\<close>

theorem logout_then_refresh:
  assumes caller: "req_user req = Some ru"
    and stored: "lookup_id (Some (v_id ru)) (users w) = Some u"
    and owner: "jwtDecode e tok = Some (v_id ru)"
    and presented: "incomingRefreshToken_of req' = Some tok"
  shows "http_status (fst (logoutUser req w)) = Some 200 \<and>
         lookup_id (Some (v_id ru)) (users (snd (logoutUser req w))) = Some (u\<lparr>refreshToken := Absent\<rparr>) \<and>
         refreshToken (u\<lparr>refreshToken := Absent\<rparr>) \<noteq> Null \<and>
         fails_with 401 (fst (refreshAccessToken e now req' (snd (logoutUser req w))))"
proof -
  let ?w1 = "snd (logoutUser req w)"
  have w1: "?w1 = snd (User_findByIdAndUpdate (Some (v_id ru)) (\<lambda>u. u\<lparr>refreshToken := Absent\<rparr>) w)"
    using caller by (simp add: logoutUser_def split: prod.splits)
  have ok: "http_status (fst (logoutUser req w)) = Some 200"
    using caller by (simp add: logoutUser_def http_status_def split: prod.splits)
  have k: "uid u = v_id ru" using lookup_id_uid [OF stored] by simp
  have l: "lookup_id (Some (v_id ru)) (users ?w1) = Some (u\<lparr>refreshToken := Absent\<rparr>)"
    unfolding w1 using stored k by (intro lookup_after_update) simp_all
  have "\<exists>err w2. refresh_try e now tok ?w1 = (Inl err, w2)"
    using l owner by (auto simp: refresh_try_def User_findById_def split: option.splits)
  then have "fails_with 401 (fst (refreshAccessToken e now req' ?w1))"
    using presented by (auto simp: refreshAccessToken_def fails_with_def)
  with ok l show ?thesis by simp
qed

text \<open>The theorem at work: the token alice holds is accepted before her logout and refused
  after it.\<close>

theorem logout_then_refresh_witness:
  "req_user req_alice = Some alice_identity \<and>
   lookup_id (Some (v_id alice_identity)) (users w_alice) = Some alice \<and>
   refreshToken alice = Value ''rtu'' \<and>
   jwtDecode env0 ''rtu'' = Some (v_id alice_identity) \<and>
   incomingRefreshToken_of req_refresh = Some ''rtu'' \<and>
   http_status (fst (refreshAccessToken env0 1 req_refresh w_alice)) = Some 200 \<and>
   http_status (fst (logoutUser req_alice w_alice)) = Some 200 \<and>
   lookup_id (Some (v_id alice_identity)) (users (snd (logoutUser req_alice w_alice)))
     = Some (alice\<lparr>refreshToken := Absent\<rparr>) \<and>
   fails_with 401 (fst (refreshAccessToken env0 1 req_refresh (snd (logoutUser req_alice w_alice))))"
proof -
  have caller: "req_user req_alice = Some alice_identity"
    by (simp add: req_alice_def req_none_def)
  have stored: "lookup_id (Some (v_id alice_identity)) (users w_alice) = Some alice"
    by (simp add: alice_identity_def select_def w_alice_def lookup_id_def alice_def)
  have owner: "jwtDecode env0 ''rtu'' = Some (v_id alice_identity)"
    by (simp add: env0_def alice_identity_def select_def alice_def)
  have presented: "incomingRefreshToken_of req_refresh = Some ''rtu''"
    by (simp add: refreshAccessToken_def refresh_try_def incomingRefreshToken_of_def
      generateAccessAndRefreshToken_def User_findById_def User_save_def lookup_id_def
      logged_def js_or_def falsy_def ApiResponse_def Let_def
      env0_def alice_def w_alice_def no_body_def req_none_def alice_identity_def
      req_refresh_def req_alice_def)
  have before: "http_status (fst (refreshAccessToken env0 1 req_refresh w_alice)) = Some 200"
    by (simp add: refreshAccessToken_def refresh_try_def incomingRefreshToken_of_def
      generateAccessAndRefreshToken_def User_findById_def User_save_def lookup_id_def
      logged_def js_or_def falsy_def ApiResponse_def Let_def
      env0_def alice_def w_alice_def no_body_def req_none_def alice_identity_def
      req_refresh_def req_alice_def http_status_def)
  have valid: "refreshToken alice = Value ''rtu''" by (simp add: alice_def)
  from logout_then_refresh [OF caller stored owner presented, of 1]
    caller stored owner presented before valid
  show ?thesis by blast
qed

section \<open>Changing the password\<close>

text \<open>
  C6. When the old password does not match the caller's stored hash, changeCurrentPassword
  fails with \<open>ApiError\<close> 400 and the users, so also the stored hash, are unchanged.
\<close>

theorem changePassword_wrong_old:
  assumes caller: "lookup_id (map_option v_id (req_user req)) (users w) = Some u"
    and wrong: "isPasswordCorrect e u (b_oldPassword (req_body req)) = Inr False"
  shows "fst (changeCurrentPassword e req w) = Inl (ApiError 400 ''Invalid Old Password'') \<and>
         users (snd (changeCurrentPassword e req w)) = users w \<and>
         map_option password (lookup_id (map_option v_id (req_user req))
            (users (snd (changeCurrentPassword e req w)))) = Some (password u)"
  using assms by (simp add: changeCurrentPassword_def User_findById_def)

theorem changePassword_wrong_old_witness:
  "lookup_id (map_option v_id (req_user (req_alice\<lparr>req_body := no_body\<lparr>b_oldPassword := Some ''guess'', b_newPassword := Some ''p2''\<rparr>\<rparr>))) (users w_alice) = Some alice \<and>
   isPasswordCorrect env0 alice (Some ''guess'') = Inr False \<and>
   fst (changeCurrentPassword env0 (req_alice\<lparr>req_body := no_body\<lparr>b_oldPassword := Some ''guess'', b_newPassword := Some ''p2''\<rparr>\<rparr>) w_alice)
     = Inl (ApiError 400 ''Invalid Old Password'') \<and>
   users (snd (changeCurrentPassword env0 (req_alice\<lparr>req_body := no_body\<lparr>b_oldPassword := Some ''guess'', b_newPassword := Some ''p2''\<rparr>\<rparr>) w_alice)) = users w_alice"
proof -
  let ?req = "req_alice\<lparr>req_body := no_body\<lparr>b_oldPassword := Some ''guess'', b_newPassword := Some ''p2''\<rparr>\<rparr>"
  have caller: "lookup_id (map_option v_id (req_user ?req)) (users w_alice) = Some alice"
    by (simp add: env0_def alice_def w_alice_def no_body_def req_none_def alice_identity_def
      req_refresh_def req_alice_def select_def lookup_id_def)
  have wrong: "isPasswordCorrect env0 alice (b_oldPassword (req_body ?req)) = Inr False"
    by (simp add: env0_def alice_def w_alice_def no_body_def req_none_def alice_identity_def
      req_refresh_def req_alice_def)
  from changePassword_wrong_old [OF caller wrong] caller wrong show ?thesis by simp
qed

section \<open>Registering a user\<close>

lemma register_steps_success:
  assumes "register_steps ap e req w = (Inr res, w')"
  shows "status res = 201 \<and> statusCode (json res) = 200 \<and>
         (\<exists>u. data (json res) = UserData (Some (select [''password'', ''refreshToken''] u)))"
  using assms
  by (auto simp: register_steps_def Let_def ApiResponse_def
      split: if_splits prod.splits sum.splits option.splits)

text \<open>
  C10. A successful registration, in either copy of the controller, is sent with the HTTP
  status 201 and carries the status code 200 in its envelope, so the two differ.
\<close>

theorem register_status_mismatch:
  assumes "registerUser e req w = (Inr res, w') \<or> registerUser_part000 e req w = (Inr res, w')"
  shows "status res = 201 \<and> statusCode (json res) = 200 \<and> status res \<noteq> statusCode (json res)"
proof -
  from assms obtain ap where "register_steps ap e req w = (Inr res, w')"
    unfolding registerUser_def registerUser_part000_def by blast
  from register_steps_success [OF this]
  have "status res = 201" and "statusCode (json res) = 200" by simp_all
  then show ?thesis by simp
qed

text \<open>The theorem at work: alice registers on the empty store.\<close>

theorem register_status_mismatch_witness:
  "(\<exists>res w'. registerUser env0 req_register w_empty = (Inr res, w') \<and>
      status res = 201 \<and> statusCode (json res) = 200 \<and> status res \<noteq> statusCode (json res))"
proof -
  define res where "res = projr (fst (registerUser env0 req_register w_empty))"
  define w' where "w' = snd (registerUser env0 req_register w_empty)"
  have r1: "registerUser env0 req_register w_empty = (Inr res, w')"
    unfolding res_def w'_def by code_simp
  then have run: "registerUser env0 req_register w_empty = (Inr res, w') \<or>
       registerUser_part000 env0 req_register w_empty = (Inr res, w')" ..
  have "registerUser env0 req_register w_empty = (Inr res, w') \<and>
      status res = 201 \<and> statusCode (json res) = 200 \<and> status res \<noteq> statusCode (json res)"
    using register_status_mismatch [OF run] r1 by (intro conjI) (elim conjE, assumption)+
  then show ?thesis by (intro exI)
qed

lemma trim_empty_iff: "trim s = [] \<longleftrightarrow> list_all isWhiteSpace s"
proof
  assume "trim s = []"
  then have "dropWhile isWhiteSpace (rev (dropWhile isWhiteSpace s)) = []"
    by (simp add: trim_def)
  then have all: "\<forall>c \<in> set (dropWhile isWhiteSpace s). isWhiteSpace c"
    by simp
  have "dropWhile isWhiteSpace s = []"
  proof (cases "dropWhile isWhiteSpace s")
    case Nil
    then show ?thesis .
  next
    case (Cons c cs)
    then have "\<not> isWhiteSpace c" using hd_dropWhile [of isWhiteSpace s] by simp
    moreover have "isWhiteSpace c" using all Cons by simp
    ultimately show ?thesis by simp
  qed
  then show "list_all isWhiteSpace s"
    by (simp add: list_all_iff)
next
  assume "list_all isWhiteSpace s"
  then have d: "dropWhile isWhiteSpace s = []"
    by (simp add: list_all_iff)
  show "trim s = []" unfolding trim_def d by simp
qed

lemma register_steps_blank_field:
  assumes "Some s \<in> {b_fullname (req_body req), b_email (req_body req),
                      b_username (req_body req), b_password (req_body req)}"
    and "list_all isWhiteSpace s"
  shows "register_steps ap e req w = (Inl (ApiError 400 ''All field are required''), w)"
proof -
  have "field_is_empty (Some s)"
    using assms(2) by (simp add: field_is_empty_def trim_empty_iff)
  with assms(1) have "list_ex field_is_empty
      [b_fullname (req_body req), b_email (req_body req),
       b_username (req_body req), b_password (req_body req)]"
    by auto
  then show ?thesis by (simp add: register_steps_def Let_def)
qed

text \<open>A required field that is present and empty or all white space: both copies of
  registerUser fail with \<open>ApiError\<close> 400 and the world, its log of store calls included,
  is as before.\<close>

lemma registerUser_blank_field:
  assumes "Some s \<in> {b_fullname (req_body req), b_email (req_body req),
                      b_username (req_body req), b_password (req_body req)}"
    and "list_all isWhiteSpace s"
  shows "registerUser e req w = (Inl (ApiError 400 ''All field are required''), w) \<and>
         registerUser_part000 e req w = (Inl (ApiError 400 ''All field are required''), w)"
  using register_steps_blank_field [OF assms]
  by (simp add: registerUser_def registerUser_part000_def)

text \<open>An absent field is not taken for an empty one.\<close>

lemma absent_field_not_empty: "\<not> field_is_empty None"
  by (simp add: field_is_empty_def)

text \<open>Without the \<open>username\<close> field the handler passes the validation and the lookup,
  uploads the files and then throws at \<open>username.toLowerCase()\<close>.\<close>

lemma registerUser_absent_username:
  "fst (registerUser env0 req_register_no_username w_alice)
     = Inl (TypeError ''Cannot read properties of undefined (reading toLowerCase)'') \<and>
   oplog (snd (registerUser env0 req_register_no_username w_alice)) = [DbFindOne, Upload, Upload]"
  by code_simp

text \<open>
  C7, at a request the claim covers and the code lets through: the \<open>fullname\<close> field is
  absent, and both copies of registerUser go on to the store lookup (the log holds
  \<open>DbFindOne\<close>) and fail with the status 409 of a taken name, not with 400.
\<close>

theorem registerUser_absent_field_reaches_store:
  "b_fullname (req_body req_register_no_fullname) = None \<and>
   fst (registerUser env0 req_register_no_fullname w_alice)
     = Inl (ApiError 409 ''user is already exist'') \<and>
   oplog (snd (registerUser env0 req_register_no_fullname w_alice)) = [DbFindOne] \<and>
   fst (registerUser_part000 env0 req_register_no_fullname w_alice)
     = Inl (ApiError 409 ''user is already exist'') \<and>
   oplog (snd (registerUser_part000 env0 req_register_no_fullname w_alice)) = [DbFindOne]"
  by code_simp

section \<open>Logging in\<close>

text \<open>The handler of user.controller.js refuses a login before the user lookup when both
  identifiers are missing or empty, and only then; with one identifier, a stored user and
  the right password it answers 200.\<close>

lemma loginUser_no_identifier:
  assumes "falsy (b_username (req_body req))" and "falsy (b_email (req_body req))"
  shows "loginUser e now req w = (Inl (ApiError 400 ''username or email is required''), w)"
  using assms by (simp add: loginUser_def)

lemma loginUser_reaches_lookup:
  assumes "\<not> (falsy (b_username (req_body req)) \<and> falsy (b_email (req_body req)))"
  shows "\<exists>rest. oplog (snd (loginUser e now req w)) = oplog w @ DbFindOne # rest"
  using assms
  by (auto simp: loginUser_def Let_def User_findOne_def User_findById_def User_save_def
      generateAccessAndRefreshToken_def logged_def
      split: option.splits sum.splits prod.splits if_splits)

lemma loginUser_refuses_iff:
  "loginUser e now req w = (Inl (ApiError 400 ''username or email is required''), w) \<longleftrightarrow>
   falsy (b_username (req_body req)) \<and> falsy (b_email (req_body req))"
proof
  assume r: "loginUser e now req w = (Inl (ApiError 400 ''username or email is required''), w)"
  show "falsy (b_username (req_body req)) \<and> falsy (b_email (req_body req))"
  proof (rule ccontr)
    assume "\<not> (falsy (b_username (req_body req)) \<and> falsy (b_email (req_body req)))"
    from loginUser_reaches_lookup [OF this, of e now w] r show False by simp
  qed
next
  assume "falsy (b_username (req_body req)) \<and> falsy (b_email (req_body req))"
  then show "loginUser e now req w = (Inl (ApiError 400 ''username or email is required''), w)"
    by (simp add: loginUser_def)
qed

lemma find_some_id:
  "find P us = Some u \<Longrightarrow> \<exists>u'. find (\<lambda>x. uid x = uid u) us = Some u'"
  by (induction us) (auto split: if_splits)

lemma loginUser_one_identifier:
  assumes one: "\<not> (falsy (b_username (req_body req)) \<and> falsy (b_email (req_body req)))"
    and found: "fst (User_findOne (b_email (req_body req)) (b_username (req_body req)) w) = Some u"
    and pw: "isPasswordCorrect e u (b_password (req_body req)) = Inr True"
  shows "http_status (fst (loginUser e now req w)) = Some 200"
proof -
  from found have f: "find (\<lambda>u. Some (email u) = b_email (req_body req) \<or>
      Some (username u) = b_username (req_body req)) (users w) = Some u"
    by (simp add: User_findOne_def)
  from find_some_id [OF f] obtain u' where "lookup_id (Some (uid u)) (users (logged DbFindOne w)) = Some u'"
    by (auto simp: lookup_id_def)
  note g = generate_found [OF this, of e now]
  show ?thesis
    using one f pw g
    by (auto simp: loginUser_def Let_def User_findOne_def User_findById_def http_status_def
        split: prod.splits)
qed

text \<open>The second copy tests \<open>!username || !email\<close> and refuses a login as soon as one
  identifier is missing or empty.\<close>

lemma loginUser_part000_one_missing:
  assumes "falsy (b_username (req_body req)) \<or> falsy (b_email (req_body req))"
  shows "loginUser_part000 e now req w = (Inl (ApiError 400 ''username or email is required''), w)"
  using assms by (auto simp: loginUser_part000_def)

text \<open>
  C5, at the login of the scenario: username \<open>alice\<close>, an empty email and the right
  password. The second copy of the controller fails with \<open>ApiError\<close> 400, where the
  handler of user.controller.js answers 200.
\<close>

theorem loginUser_part000_rejects_username_only:
  "b_username (req_body req_login) = Some ''alice'' \<and> b_email (req_body req_login) = Some [] \<and>
   fst (loginUser_part000 env0 3 req_login w_alice)
     = Inl (ApiError 400 ''username or email is required'') \<and>
   http_status (fst (loginUser env0 3 req_login w_alice)) = Some 200"
  by code_simp

section \<open>The user object of a response\<close>

lemma select_both [simp]:
  "v_password (select [''password'', ''refreshToken''] u) = None"
  "v_refreshToken (select [''password'', ''refreshToken''] u) = Absent"
  by (simp_all add: select_def)

lemma select_password [simp]: "v_password (select [''password''] u) = None"
  by (simp add: select_def)



lemma select_password_keeps [simp]:
  "v_refreshToken (select [''password''] u) = refreshToken u"
  by (simp add: select_def)








section \<open>The channel profile\<close>

text \<open>
  C8, as the code has it. When no user has the given username, in lower case,
  getUserChannalProfile fails with \<open>ApiError\<close> 400 and the message
  \<open>Channel doesnot exists\<close>.
\<close>

theorem channel_not_found_is_400:
  assumes "req_params_username req = Some name" and "trim name \<noteq> []"
    and "filter (\<lambda>u. username u = toLowerCase name) (users w) = []"
  shows "fst (getUserChannalProfile req w) = Inl (ApiError 400 ''Channel doesnot exists'') \<and>
         http_status (fst (getUserChannalProfile req w)) = Some 400"
  using assms by (simp add: getUserChannalProfile_def User_aggregate_def http_status_def)

theorem channel_not_found_is_400_witness:
  "req_params_username req_bob = Some ''Bob'' \<and> trim ''Bob'' \<noteq> [] \<and>
   filter (\<lambda>u. username u = toLowerCase ''Bob'') (users w_alice) = [] \<and>
   fst (getUserChannalProfile req_bob w_alice) = Inl (ApiError 400 ''Channel doesnot exists'') \<and>
   http_status (fst (getUserChannalProfile req_bob w_alice)) = Some 400"
proof -
  have h1: "req_params_username req_bob = Some ''Bob''"
    by (simp add: req_bob_def req_none_def)
  have h2: "trim ''Bob'' \<noteq> []" by code_simp
  have h3: "filter (\<lambda>u. username u = toLowerCase ''Bob'') (users w_alice) = []" by code_simp
  from channel_not_found_is_400 [OF h1 h2 h3] h1 h2 h3 show ?thesis by blast
qed

text \<open>
  C8, as the claim words it, fails: nobody is called bob in the store that holds alice, and
  the query does not fail with status 404.
\<close>

theorem channel_not_found_not_404:
  "filter (\<lambda>u. username u = toLowerCase ''Bob'') (users w_alice) = [] \<and>
   fst (getUserChannalProfile req_bob w_alice) = Inl (ApiError 400 ''Channel doesnot exists'') \<and>
   \<not> fails_with 404 (fst (getUserChannalProfile req_bob w_alice))"
  by code_simp

section \<open>The handlers as exported\<close>

text \<open>
  C9. \<open>asyncHandler\<close> has a body in braces that holds the inner arrow function as an
  expression statement and no \<open>return\<close>: applied to any request handler it evaluates to
  \<open>undefined\<close>, which cannot be called, and so does every export of user.controller.js.
  The theorems of the other sections are about the request handlers that are passed to
  \<open>asyncHandler\<close>.
\<close>

theorem asyncHandler_returns_undefined:
  "asyncHandler reqHandler = Undefined \<and> \<not> callable (asyncHandler reqHandler) \<and>
   invoke (asyncHandler reqHandler) = Inl (TypeError ''handler is not a function'') \<and>
   asyncHandler (registerUser e) = Undefined \<and> asyncHandler (loginUser e now) = Undefined \<and>
   asyncHandler logoutUser = Undefined \<and> asyncHandler (refreshAccessToken e now) = Undefined \<and>
   asyncHandler (changeCurrentPassword e) = Undefined \<and> asyncHandler getCurrentUser = Undefined \<and>
   asyncHandler updateUserAccount = Undefined \<and> asyncHandler (updateUserAvatar e) = Undefined \<and>
   asyncHandler (updateUserCoverImage e) = Undefined \<and>
   asyncHandler getUserChannalProfile = Undefined"
  by (simp add: asyncHandler_def callable_def invoke_def)


end
